theory Spec2Isabelle
  imports Main "HOL-Library.Word"
begin

unbundle bit_operations_syntax

section \<open>Background statistics recalculation (dict/dict0stats_bg.cc)\<close>

text \<open>
  The model is sequential: one call runs to completion on an explicit state.  The three
  locks of the source (\<open>recalc_pool_mutex\<close>, \<open>dict_sys.latch\<close>,
  \<open>dict_stats_mutex\<close>) only delimit critical sections and are not part of the state,
  with one exception: \<open>dict_stats_schedule\<close> uses \<open>try_lock\<close>, whose outcome decides
  what the function does, so the state says whether that attempt succeeds.
\<close>

subsection \<open>Data model\<close>

type_synonym table_id_t = "64 word"
type_synonym ulonglong = "64 word"
type_synonym time_t = int

text \<open>
  The fields of \<open>dict_table_t\<close> that the file reads or writes.  The struct itself and the
  inline predicates \<open>dict_stats_is_persistent_enabled\<close>,
  \<open>dict_stats_auto_recalc_is_enabled\<close>, \<open>table->name.is_temporary()\<close> and
  \<open>table->is_accessible()\<close> are declared outside this file; the value each of them returns
  for a table is a field of the record.
\<close>

record dict_table_t =
  tab_id :: table_id_t
  stat_initialized :: bool
  stat_modified_counter :: ulonglong
  stat_n_rows :: ulonglong
  stats_last_recalc :: time_t
  stats_bg_flag :: "8 word"
  n_ref_count :: nat
  name_is_temporary :: bool
  stats_persistent_enabled :: bool
  stats_auto_recalc_enabled :: bool
  is_accessible :: bool

text \<open>
  The values of \<open>stats_bg_flag\<close> (declared in dict0mem.h, outside dict0stats_bg.cc):
  no background activity, and the bit the worker sets while it uses the table.
\<close>

definition BG_STAT_NONE :: "8 word" where
  "BG_STAT_NONE = 0"

definition BG_STAT_IN_PROGRESS :: "8 word" where
  "BG_STAT_IN_PROGRESS = 1"

text \<open>Minimum time interval between stats recalc for a given table, in seconds.\<close>

definition MIN_RECALC_INTERVAL :: int where
  "MIN_RECALC_INTERVAL = 10"

datatype dict_stats_upd_option_t = DICT_STATS_RECALC_PERSISTENT | DICT_STATS_RECALC_TRANSIENT

text \<open>
  The calls that leave the file, in the order they are made: the creation of the timer,
  every call of \<open>dict_stats_schedule\<close> with its delay, and every call of
  \<open>dict_stats_update\<close> with its mode and the table's id.
\<close>

datatype stats_call =
  CreateTimer
  | CallSchedule int
  | StatsUpdate dict_stats_upd_option_t table_id_t

text \<open>A \<open>tpool::timer\<close>: the delay of the pending one-shot firing, if one is set.\<close>

record tpool_timer =
  timer_due :: "int option"

text \<open>
  The globals of the file and what it reaches of its environment:
  \<^item> \<open>recalc_pool\<close>, \<open>defrag_pool\<close> (a \<open>std::vector\<close> each), \<open>stats_initialised\<close>,
    \<open>dict_stats_timer\<close> (a null pointer is \<open>None\<close>);
  \<^item> \<open>recalc_pool_mutex_live\<close>: between \<open>mysql_mutex_init\<close> and \<open>mysql_mutex_destroy\<close>;
  \<^item> \<open>dict_stats_mutex_free\<close>: whether \<open>try_lock\<close> on \<open>dict_stats_mutex\<close> succeeds;
  \<^item> \<open>dict_sys_tables\<close>: the tables \<open>dict_table_open_on_id\<close> can open, by id;
  \<^item> \<open>srv_stats_modified_counter\<close>: the global override of the transient threshold;
  \<^item> \<open>time_src\<close>, \<open>time_calls\<close>: the \<open>n\<close>-th call of \<open>time(NULL)\<close> returns \<open>time_src n\<close>;
  \<^item> \<open>calls\<close>: the trace of outgoing calls.
\<close>

record stats_sys =
  recalc_pool :: "table_id_t list"
  defrag_pool :: "(table_id_t \<times> 64 word) list"
  stats_initialised :: bool
  recalc_pool_mutex_live :: bool
  dict_stats_timer :: "tpool_timer option"
  dict_stats_mutex_free :: bool
  dict_sys_tables :: "table_id_t \<rightharpoonup> dict_table_t"
  srv_stats_modified_counter :: ulonglong
  time_src :: "nat \<Rightarrow> time_t"
  time_calls :: nat
  calls :: "stats_call list"

subsection \<open>Environment\<close>

definition time_null :: "stats_sys \<Rightarrow> time_t \<times> stats_sys" where
  "time_null w = (time_src w (time_calls w), w\<lparr>time_calls := time_calls w + 1\<rparr>)"

definition dict_table_get_n_rows :: "dict_table_t \<Rightarrow> ulonglong" where
  "dict_table_get_n_rows table = stat_n_rows table"

text \<open>
  Modelled from the spec: \<open>dict_stats_update\<close> (dict0stats.cc) lies outside
  dict0stats_bg.cc.  The spec's statistics engine \<open>recompute(handle, mode)\<close> "updates the timestamp
  and resets the modification counter"; the comment at the transient call site says the
  same of the counter.  The statistics it computes are not modelled.
\<close>

definition dict_stats_update ::
  "dict_table_t \<Rightarrow> dict_stats_upd_option_t \<Rightarrow> stats_sys \<Rightarrow> dict_table_t \<times> stats_sys" where
  "dict_stats_update table opt w =
     (let (now, w1) = time_null w
      in (table\<lparr>stat_modified_counter := 0, stats_last_recalc := now\<rparr>,
          w1\<lparr>calls := calls w1 @ [StatsUpdate opt (tab_id table)]\<rparr>))"

text \<open>
  Modelled from the spec: \<open>dict_table_open_on_id\<close> (dict0dict.cc) lies outside
  dict0stats_bg.cc.  It is the spec's catalog operation \<open>resolve(id) -> Option<TableHandle>\<close>:
  the table object registered under the id, with one more reference, or none when the
  table was dropped.  The caller holds the object and writes it back to the catalog,
  under the id it was opened with, when it gives the reference back.
\<close>

definition dict_table_open_on_id :: "table_id_t \<Rightarrow> stats_sys \<Rightarrow> dict_table_t option" where
  "dict_table_open_on_id table_id w =
     (case dict_sys_tables w table_id of
        None \<Rightarrow> None
      | Some table \<Rightarrow> Some (table\<lparr>n_ref_count := n_ref_count table + 1\<rparr>))"

text \<open>
  Modelled from the spec: \<open>dict_table_t::release\<close> (dict0mem.h) lies outside
  dict0stats_bg.cc.  It is the spec's catalog operation \<open>release(handle)\<close>: the reference taken
  by resolving is given back.
\<close>

definition table_release :: "table_id_t \<Rightarrow> dict_table_t \<Rightarrow> stats_sys \<Rightarrow> stats_sys" where
  "table_release table_id table w =
     w\<lparr>dict_sys_tables := (dict_sys_tables w)(table_id \<mapsto> table\<lparr>n_ref_count := n_ref_count table - 1\<rparr>)\<rparr>"

text \<open>
  Modelled from the spec: \<open>dict_table_close\<close> (dict0dict.cc) lies outside
  dict0stats_bg.cc.  The worker calls it where the spec says "release the table handle".
\<close>

definition dict_table_close :: "table_id_t \<Rightarrow> dict_table_t \<Rightarrow> stats_sys \<Rightarrow> stats_sys" where
  "dict_table_close table_id table w = table_release table_id table w"

subsection \<open>Scheduler\<close>

definition dict_stats_start :: "stats_sys \<Rightarrow> stats_sys" where
  "dict_stats_start w =
     (if dict_stats_timer w = None
      then w\<lparr>dict_stats_timer := Some \<lparr>timer_due = None\<rparr>, calls := calls w @ [CreateTimer]\<rparr>
      else w)"

definition dict_stats_schedule :: "int \<Rightarrow> stats_sys \<Rightarrow> stats_sys" where
  "dict_stats_schedule ms w =
     (let w1 = w\<lparr>calls := calls w @ [CallSchedule ms]\<rparr>
      in if \<not> dict_stats_mutex_free w1 then w1
         else (case dict_stats_timer w1 of
                 None \<Rightarrow> w1
               | Some t \<Rightarrow> w1\<lparr>dict_stats_timer := Some (t\<lparr>timer_due := Some ms\<rparr>)\<rparr>))"

definition dict_stats_schedule_now :: "stats_sys \<Rightarrow> stats_sys" where
  "dict_stats_schedule_now w = dict_stats_schedule 0 w"

definition dict_stats_shutdown :: "stats_sys \<Rightarrow> stats_sys" where
  "dict_stats_shutdown w = w\<lparr>dict_stats_timer := None\<rparr>"

subsection \<open>The recalc pool\<close>

text \<open>The argument is \<open>table->id\<close>, the only field of the table the function reads.\<close>

definition dict_stats_recalc_pool_add :: "table_id_t \<Rightarrow> bool \<Rightarrow> stats_sys \<Rightarrow> stats_sys" where
  "dict_stats_recalc_pool_add table_id schedule_dict_stats_task w =
     (if table_id \<in> set (recalc_pool w) then w
      else
        let w1 = w\<lparr>recalc_pool := recalc_pool w @ [table_id]\<rparr>
        in if length (recalc_pool w1) = 1 \<and> schedule_dict_stats_task
           then dict_stats_schedule_now w1
           else w1)"

text \<open>
  The out-parameter \<open>*id\<close> is passed in with the value it holds before the call and
  returned with the value it holds after it.
\<close>

definition dict_stats_recalc_pool_get ::
  "table_id_t \<Rightarrow> stats_sys \<Rightarrow> bool \<times> table_id_t \<times> stats_sys" where
  "dict_stats_recalc_pool_get id_out w =
     (case recalc_pool w of
        [] \<Rightarrow> (False, id_out, w)
      | x # xs \<Rightarrow> (True, x, w\<lparr>recalc_pool := xs\<rparr>))"

definition dict_stats_recalc_pool_del :: "table_id_t \<Rightarrow> stats_sys \<Rightarrow> stats_sys" where
  "dict_stats_recalc_pool_del table_id w = w\<lparr>recalc_pool := remove1 table_id (recalc_pool w)\<rparr>"

subsection \<open>The modification tracker\<close>

text \<open>Lines 262 to 266: the threshold of the transient mode.\<close>

definition transient_threshold :: "ulonglong \<Rightarrow> ulonglong \<Rightarrow> ulonglong" where
  "transient_threshold n_rows override =
     (let threshold = 16 + n_rows div 16
      in if override \<noteq> 0 then min override threshold else threshold)"

text \<open>
  \<open>wsrep_skip\<close> is the value of the replication check of the \<open>WITH_WSREP\<close> build
  (\<open>trx.is_wsrep() && !wsrep_thd_is_applying(..) && wsrep_thd_is_BF(..)\<close>); the build
  without it is \<open>wsrep_skip = False\<close>.  The table object is passed in and returned.
\<close>

definition dict_stats_update_if_needed_func ::
  "bool \<Rightarrow> dict_table_t \<Rightarrow> stats_sys \<Rightarrow> dict_table_t \<times> stats_sys" where
  "dict_stats_update_if_needed_func wsrep_skip table0 w =
     (if \<not> stat_initialized table0 then (table0, w)
      else
        let counter = stat_modified_counter table0;
            table = table0\<lparr>stat_modified_counter := stat_modified_counter table0 + 1\<rparr>;
            n_rows = dict_table_get_n_rows table
        in if stats_persistent_enabled table then
             if name_is_temporary table then (table, w)
             else if counter > n_rows div 10 \<and> stats_auto_recalc_enabled table then
               if wsrep_skip then (table, w)
               else (table\<lparr>stat_modified_counter := 0\<rparr>,
                     dict_stats_recalc_pool_add (tab_id table) True w)
             else (table, w)
           else if counter > transient_threshold n_rows (srv_stats_modified_counter w)
             then dict_stats_update table DICT_STATS_RECALC_TRANSIENT w
             else (table, w))"

subsection \<open>Lifecycle\<close>

definition dict_stats_recalc_pool_deinit :: "stats_sys \<Rightarrow> stats_sys" where
  "dict_stats_recalc_pool_deinit w = w\<lparr>recalc_pool := [], defrag_pool := []\<rparr>"

text \<open>
  Modelled from the spec: \<open>dict_defrag_pool_init\<close> (dict0defrag_bg.cc) lies outside
  dict0stats_bg.cc.  The spec's \<open>init()\<close> "constructs the companion pool"; what is
  constructed besides the (empty) vector is the companion pool's own lock, which the
  state does not hold.
\<close>

definition dict_defrag_pool_init :: "stats_sys \<Rightarrow> stats_sys" where
  "dict_defrag_pool_init w = w"

text \<open>
  Modelled from the spec: \<open>dict_defrag_pool_deinit\<close> (dict0defrag_bg.cc) lies outside
  dict0stats_bg.cc.  In the spec's \<open>deinit()\<close> the pools are cleared and their storage
  released, which \<open>dict_stats_recalc_pool_deinit\<close> above does for both; what is left to
  this function is the companion pool's own lock, which the state does not hold.
\<close>

definition dict_defrag_pool_deinit :: "stats_sys \<Rightarrow> stats_sys" where
  "dict_defrag_pool_deinit w = w"

text \<open>
  Modelled from the spec: \<open>dict_defrag_process_entries_from_defrag_pool\<close>
  (dict0defrag_bg.cc) lies outside dict0stats_bg.cc.  In the spec the companion
  pool "is drained afterward as a separate pass".
\<close>

definition dict_defrag_process_entries_from_defrag_pool :: "stats_sys \<Rightarrow> stats_sys" where
  "dict_defrag_process_entries_from_defrag_pool w = w\<lparr>defrag_pool := []\<rparr>"

definition dict_stats_init :: "stats_sys \<Rightarrow> stats_sys" where
  "dict_stats_init w =
     (dict_defrag_pool_init (w\<lparr>recalc_pool_mutex_live := True\<rparr>))\<lparr>stats_initialised := True\<rparr>"

definition dict_stats_deinit :: "stats_sys \<Rightarrow> stats_sys" where
  "dict_stats_deinit w =
     (if \<not> stats_initialised w then w
      else
        (dict_defrag_pool_deinit
           (dict_stats_recalc_pool_deinit (w\<lparr>stats_initialised := False\<rparr>)))
        \<lparr>recalc_pool_mutex_live := False\<rparr>)"

subsection \<open>The worker\<close>

text \<open>
  \<open>difftime\<close> of two \<open>time_t\<close> values is their difference; the comparison with the
  interval is made on integers.  The local \<open>table_id\<close> is uninitialised in the source
  and is read only after \<open>dict_stats_recalc_pool_get\<close> has set it; the model starts it
  at 0.  The \<open>goto next_table_id\<close> is the recursive call.
\<close>

function dict_stats_process_entry_from_recalc_pool :: "stats_sys \<Rightarrow> bool \<times> stats_sys" where
  "dict_stats_process_entry_from_recalc_pool w =
     (case dict_stats_recalc_pool_get 0 w of
        (False, _, w1) \<Rightarrow> (False, w1)
      | (True, table_id, w1) \<Rightarrow>
          (case dict_table_open_on_id table_id w1 of
             None \<Rightarrow> dict_stats_process_entry_from_recalc_pool w1
           | Some table \<Rightarrow>
               if \<not> is_accessible table
               then dict_stats_process_entry_from_recalc_pool (table_release table_id table w1)
               else
                 let table1 = table\<lparr>stats_bg_flag := stats_bg_flag table OR BG_STAT_IN_PROGRESS\<rparr>;
                     (now, w2) = time_null w1;
                     (ret, table2, w3) =
                       (if now - stats_last_recalc table1 < MIN_RECALC_INTERVAL
                        then (False, table1,
                              dict_stats_schedule (MIN_RECALC_INTERVAL * 1000)
                                (dict_stats_recalc_pool_add (tab_id table1) False w2))
                        else (case dict_stats_update table1 DICT_STATS_RECALC_PERSISTENT w2 of
                                (table2, w3) \<Rightarrow> (True, table2, w3)));
                     table3 = table2\<lparr>stats_bg_flag := BG_STAT_NONE\<rparr>
                 in (ret, dict_table_close table_id table3 w3)))"
  by pat_completeness auto
termination
  by (relation "measure (\<lambda>w. length (recalc_pool w))")
     (auto simp: dict_stats_recalc_pool_get_def table_release_def split: list.splits)

declare dict_stats_process_entry_from_recalc_pool.simps [simp del]

text \<open>
  \<open>while (dict_stats_process_entry_from_recalc_pool()) {}\<close>: a pass that returns true
  has taken at least one identifier from the pool and added none, so the pool's length
  bounds the number of passes.
\<close>

function dict_stats_func_loop :: "stats_sys \<Rightarrow> stats_sys" where
  "dict_stats_func_loop w =
     (case dict_stats_process_entry_from_recalc_pool w of
        (True, w') \<Rightarrow> dict_stats_func_loop w'
      | (False, w') \<Rightarrow> w')"
  by pat_completeness auto
termination
proof -
  have shrink: "dict_stats_process_entry_from_recalc_pool v = (True, v') \<Longrightarrow>
      length (recalc_pool v') < length (recalc_pool v)" for v v'
  proof (induction v rule: dict_stats_process_entry_from_recalc_pool.induct)
    case (1 v)
    show ?case
    proof (cases "recalc_pool v")
      case Nil
      with "1.prems" show ?thesis
        by (simp add: dict_stats_process_entry_from_recalc_pool.simps[of v]
            dict_stats_recalc_pool_get_def)
    next
      case (Cons x xs)
      then have g: "dict_stats_recalc_pool_get 0 v = (True, x, v\<lparr>recalc_pool := xs\<rparr>)"
        by (simp add: dict_stats_recalc_pool_get_def)
      show ?thesis
      proof (cases "dict_table_open_on_id x (v\<lparr>recalc_pool := xs\<rparr>)")
        case None
        with "1.prems" g
        have "dict_stats_process_entry_from_recalc_pool (v\<lparr>recalc_pool := xs\<rparr>) = (True, v')"
          by (simp add: dict_stats_process_entry_from_recalc_pool.simps[of v])
        with "1.IH"(1)[OF g[symmetric] refl _ None] Cons show ?thesis
          by simp
      next
        case (Some t)
        show ?thesis
        proof (cases "is_accessible t")
          case False
          with "1.prems" g Some
          have "dict_stats_process_entry_from_recalc_pool
                  (table_release x t (v\<lparr>recalc_pool := xs\<rparr>)) = (True, v')"
            by (simp add: dict_stats_process_entry_from_recalc_pool.simps[of v])
          with "1.IH"(2)[OF g[symmetric] refl _ Some] False Cons show ?thesis
            by (simp add: table_release_def)
        next
          case True
          with "1.prems" g Some Cons show ?thesis
            by (auto simp: dict_stats_process_entry_from_recalc_pool.simps[of v] Let_def
                time_null_def dict_stats_update_def dict_table_close_def table_release_def
                split: if_splits prod.splits)
        qed
      qed
    qed
  qed
  show ?thesis
    by (relation "measure (\<lambda>w. length (recalc_pool w))") (auto dest: shrink[OF sym])
qed

declare dict_stats_func_loop.simps [simp del]

definition dict_stats_func :: "stats_sys \<Rightarrow> stats_sys" where
  "dict_stats_func w = dict_defrag_process_entries_from_defrag_pool (dict_stats_func_loop w)"

subsection \<open>Example states\<close>

definition ex_table :: dict_table_t where
  "ex_table =
     \<lparr>tab_id = 1, stat_initialized = True, stat_modified_counter = 17, stat_n_rows = 160,
      stats_last_recalc = 100, stats_bg_flag = 0, n_ref_count = 0,
      name_is_temporary = False, stats_persistent_enabled = False,
      stats_auto_recalc_enabled = True, is_accessible = True\<rparr>"

definition ex_sys :: stats_sys where
  "ex_sys =
     \<lparr>recalc_pool = [], defrag_pool = [], stats_initialised = True,
      recalc_pool_mutex_live = True, dict_stats_timer = Some \<lparr>timer_due = None\<rparr>,
      dict_stats_mutex_free = True, dict_sys_tables = [1 \<mapsto> ex_table],
      srv_stats_modified_counter = 0, time_src = (\<lambda>n. 105), time_calls = 0, calls = []\<rparr>"

section \<open>Properties of the recalc pool\<close>

lemma pool_add_pool:
  "recalc_pool (dict_stats_recalc_pool_add i f w) =
     (if i \<in> set (recalc_pool w) then recalc_pool w else recalc_pool w @ [i])"
  by (simp add: dict_stats_recalc_pool_add_def dict_stats_schedule_now_def
      dict_stats_schedule_def Let_def split: option.splits)

lemma pool_add_distinct:
  "distinct (recalc_pool w) \<Longrightarrow> distinct (recalc_pool (dict_stats_recalc_pool_add i f w))"
  by (simp add: pool_add_pool)

lemma pool_adds_distinct:
  "distinct (recalc_pool w) \<Longrightarrow>
   distinct (recalc_pool (fold (\<lambda>(i, f). dict_stats_recalc_pool_add i f) adds w))"
  by (induction adds arbitrary: w) (auto simp: pool_add_distinct)

lemma pool_add_present:
  "i \<in> set (recalc_pool w) \<Longrightarrow> dict_stats_recalc_pool_add i f w = w"
  by (simp add: dict_stats_recalc_pool_add_def)

lemma pool_add_member: "i \<in> set (recalc_pool (dict_stats_recalc_pool_add i f w))"
  by (simp add: pool_add_pool)

lemma pool_add_same_repeat:
  "i \<in> set (recalc_pool w) \<Longrightarrow> fold (\<lambda>f. dict_stats_recalc_pool_add i f) fs w = w"
  by (induction fs) (auto simp: pool_add_present)

lemma count_list_distinct:
  "distinct xs \<Longrightarrow> x \<in> set xs \<Longrightarrow> count_list xs x = 1"
  by (induction xs) auto

lemma pool_get_cons:
  "recalc_pool w = x # xs \<Longrightarrow>
   dict_stats_recalc_pool_get id_out w = (True, x, w\<lparr>recalc_pool := xs\<rparr>)"
  by (simp add: dict_stats_recalc_pool_get_def)

text \<open>
  Claim C3 (uniqueness).  A pool without duplicates, the empty pool of a fresh process
  among them, has no duplicates after any sequence \<open>adds\<close> of calls of
  \<open>dict_stats_recalc_pool_add\<close>, each with its own identifier and flag.  After one or
  more adds of the same identifier \<open>i\<close> (flags \<open>fs\<close>) and no removal, the pool holds \<open>i\<close>
  exactly once.  An add of an identifier that is already in the pool leaves the whole
  state unchanged.
\<close>

theorem recalc_pool_unique:
  assumes "distinct (recalc_pool w)"
  shows "distinct (recalc_pool (fold (\<lambda>(i, f). dict_stats_recalc_pool_add i f) adds w))
       \<and> (fs \<noteq> [] \<longrightarrow>
            count_list (recalc_pool (fold (\<lambda>f. dict_stats_recalc_pool_add i f) fs w)) i = 1)
       \<and> (i \<in> set (recalc_pool w) \<longrightarrow> dict_stats_recalc_pool_add i f w = w)"
proof (intro conjI impI)
  show "distinct (recalc_pool (fold (\<lambda>(i, f). dict_stats_recalc_pool_add i f) adds w))"
    using assms by (rule pool_adds_distinct)
next
  assume "fs \<noteq> []"
  then obtain g gs where fs: "fs = g # gs"
    by (cases fs) auto
  let ?w1 = "dict_stats_recalc_pool_add i g w"
  have mem: "i \<in> set (recalc_pool ?w1)"
    by (rule pool_add_member)
  have "fold (\<lambda>f. dict_stats_recalc_pool_add i f) fs w = ?w1"
    using pool_add_same_repeat[OF mem] by (simp add: fs)
  moreover have "distinct (recalc_pool ?w1)"
    using assms by (rule pool_add_distinct)
  ultimately show "count_list (recalc_pool (fold (\<lambda>f. dict_stats_recalc_pool_add i f) fs w)) i = 1"
    using mem by (simp add: count_list_distinct)
next
  assume "i \<in> set (recalc_pool w)"
  then show "dict_stats_recalc_pool_add i f w = w"
    by (rule pool_add_present)
qed

theorem recalc_pool_unique_witness:
  "distinct (recalc_pool (fold (\<lambda>(i, f). dict_stats_recalc_pool_add i f)
       [(5, True), (7, False), (5, True), (7, True)] ex_sys))
   \<and> count_list (recalc_pool (fold (\<lambda>f. dict_stats_recalc_pool_add 5 f) [True, False, True] ex_sys)) 5 = 1
   \<and> recalc_pool (fold (\<lambda>f. dict_stats_recalc_pool_add 5 f) [True, False, True] ex_sys) = [5]
   \<and> dict_stats_recalc_pool_add 5 True (dict_stats_recalc_pool_add 5 True ex_sys)
       = dict_stats_recalc_pool_add 5 True ex_sys"
proof -
  have d: "distinct (recalc_pool ex_sys)"
    by (simp add: ex_sys_def)
  have d1: "distinct (recalc_pool (dict_stats_recalc_pool_add 5 True ex_sys))"
    by (simp add: pool_add_pool ex_sys_def)
  have m: "5 \<in> set (recalc_pool (dict_stats_recalc_pool_add 5 True ex_sys))"
    by (simp add: pool_add_pool)
  have p: "recalc_pool (fold (\<lambda>f. dict_stats_recalc_pool_add 5 f) [True, False, True] ex_sys) = [5]"
    by (simp add: pool_add_pool ex_sys_def)
  show ?thesis
    using recalc_pool_unique[OF d, of "[(5, True), (7, False), (5, True), (7, True)]"
        "[True, False, True]" 5 True]
      recalc_pool_unique[OF d1, of "[]" "[]" 5 True] m p
    by simp
qed

text \<open>
  Claim C5 (immediate scheduling).  \<open>dict_stats_recalc_pool_add\<close> calls
  \<open>dict_stats_schedule_now\<close>, recorded in the trace as \<open>CallSchedule 0\<close>, exactly when the
  pool was empty before the call and the flag is true; in every other case it makes no
  outgoing call at all.
\<close>

theorem recalc_pool_add_schedules_now:
  "calls (dict_stats_recalc_pool_add i f w) =
     (if recalc_pool w = [] \<and> f then calls w @ [CallSchedule 0] else calls w)"
  by (auto simp: dict_stats_recalc_pool_add_def dict_stats_schedule_now_def
      dict_stats_schedule_def Let_def split: option.splits)

theorem recalc_pool_add_schedules_now_witness:
  "calls (dict_stats_recalc_pool_add 1 True ex_sys) = [CallSchedule 0]
   \<and> calls (dict_stats_recalc_pool_add 1 False ex_sys) = []
   \<and> calls (dict_stats_recalc_pool_add 2 True (ex_sys\<lparr>recalc_pool := [1]\<rparr>)) = []"
proof -
  have e: "recalc_pool ex_sys = []" "calls ex_sys = []"
    by (simp_all add: ex_sys_def)
  show ?thesis
    using recalc_pool_add_schedules_now[of 1 True ex_sys]
      recalc_pool_add_schedules_now[of 1 False ex_sys]
      recalc_pool_add_schedules_now[of 2 True "ex_sys\<lparr>recalc_pool := [1]\<rparr>"]
    by (simp add: e)
qed

text \<open>
  Claim C10 (empty pool).  On an empty pool \<open>dict_stats_recalc_pool_get\<close> returns false,
  the out-parameter keeps the value it had and the state is unchanged.
\<close>

theorem recalc_pool_get_empty:
  "recalc_pool w = [] \<Longrightarrow> dict_stats_recalc_pool_get id_out w = (False, id_out, w)"
  by (simp add: dict_stats_recalc_pool_get_def)

theorem recalc_pool_get_empty_witness:
  "recalc_pool ex_sys = [] \<and> dict_stats_recalc_pool_get 42 ex_sys = (False, 42, ex_sys)"
proof -
  have e: "recalc_pool ex_sys = []"
    by (simp add: ex_sys_def)
  from recalc_pool_get_empty[OF e, of 42] e show ?thesis
    by simp
qed

text \<open>
  Claim C4 (FIFO).  From an empty pool, adds of three distinct identifiers \<open>a\<close>, \<open>b\<close>,
  \<open>c\<close> give the pool \<open>[a, b, c]\<close>; three calls of \<open>dict_stats_recalc_pool_get\<close> then
  return true with \<open>a\<close>, \<open>b\<close> and \<open>c\<close> in this order and leave the pool empty; and
  when \<open>a\<close> is added again right after it was taken, the pool is \<open>[b, c, a]\<close>.
\<close>

theorem recalc_pool_fifo:
  assumes "recalc_pool w = []" and "a \<noteq> b" and "a \<noteq> c" and "b \<noteq> c"
  shows "(let w3 = dict_stats_recalc_pool_add c fc
                     (dict_stats_recalc_pool_add b fb (dict_stats_recalc_pool_add a fa w));
              (r1, i1, w4) = dict_stats_recalc_pool_get i0 w3;
              (r2, i2, w5) = dict_stats_recalc_pool_get i1 w4;
              (r3, i3, w6) = dict_stats_recalc_pool_get i2 w5
          in recalc_pool w3 = [a, b, c]
             \<and> (r1, i1) = (True, a) \<and> (r2, i2) = (True, b) \<and> (r3, i3) = (True, c)
             \<and> recalc_pool w6 = []
             \<and> recalc_pool (dict_stats_recalc_pool_add a f w4) = [b, c, a])"
proof -
  let ?w3 = "dict_stats_recalc_pool_add c fc
               (dict_stats_recalc_pool_add b fb (dict_stats_recalc_pool_add a fa w))"
  have p3: "recalc_pool ?w3 = [a, b, c]"
    using assms by (simp add: pool_add_pool)
  show ?thesis
    using assms p3
    by (simp add: Let_def pool_get_cons[OF p3] pool_get_cons pool_add_pool)
qed

theorem recalc_pool_fifo_witness:
  "(let w3 = dict_stats_recalc_pool_add 3 True
                     (dict_stats_recalc_pool_add 2 True (dict_stats_recalc_pool_add 1 True ex_sys));
        (r1, i1, w4) = dict_stats_recalc_pool_get 0 w3;
        (r2, i2, w5) = dict_stats_recalc_pool_get i1 w4;
        (r3, i3, w6) = dict_stats_recalc_pool_get i2 w5
    in recalc_pool w3 = [1, 2, 3]
       \<and> (r1, i1) = (True, 1) \<and> (r2, i2) = (True, 2) \<and> (r3, i3) = (True, 3)
       \<and> recalc_pool w6 = []
       \<and> recalc_pool (dict_stats_recalc_pool_add 1 False w4) = [2, 3, 1])"
proof -
  have e: "recalc_pool ex_sys = []"
    by (simp add: ex_sys_def)
  show ?thesis
    using recalc_pool_fifo[OF e, of 1 2 3 True True True 0 False]
    by simp
qed

section \<open>Properties of the lifecycle\<close>

text \<open>
  Claim C9 (idempotent lifecycle).  A second \<open>dict_stats_start\<close> changes nothing, the
  trace included, so it creates no timer; \<open>dict_stats_shutdown\<close> without a timer changes
  nothing; \<open>dict_stats_deinit\<close> changes nothing when the subsystem is not initialised,
  and otherwise empties both pools and clears \<open>stats_initialised\<close>, so that a second
  \<open>dict_stats_deinit\<close> changes nothing.
\<close>

theorem lifecycle_idempotent:
  "dict_stats_start (dict_stats_start w) = dict_stats_start w
   \<and> (dict_stats_timer w = None \<longrightarrow> dict_stats_shutdown w = w)
   \<and> (\<not> stats_initialised w \<longrightarrow> dict_stats_deinit w = w)
   \<and> (stats_initialised w \<longrightarrow>
        recalc_pool (dict_stats_deinit w) = [] \<and> defrag_pool (dict_stats_deinit w) = []
        \<and> \<not> stats_initialised (dict_stats_deinit w))
   \<and> dict_stats_deinit (dict_stats_deinit w) = dict_stats_deinit w"
  by (simp add: dict_stats_start_def dict_stats_shutdown_def dict_stats_deinit_def
      dict_stats_recalc_pool_deinit_def dict_defrag_pool_deinit_def)

theorem lifecycle_idempotent_witness:
  "calls (dict_stats_start (dict_stats_start (dict_stats_shutdown ex_sys))) = [CreateTimer]
   \<and> dict_stats_shutdown (dict_stats_shutdown ex_sys) = dict_stats_shutdown ex_sys
   \<and> dict_stats_deinit (dict_stats_deinit ex_sys) = dict_stats_deinit ex_sys
   \<and> recalc_pool (dict_stats_deinit (ex_sys\<lparr>recalc_pool := [4, 5]\<rparr>)) = []
   \<and> defrag_pool (dict_stats_deinit (ex_sys\<lparr>recalc_pool := [4, 5]\<rparr>)) = []
   \<and> \<not> stats_initialised (dict_stats_deinit (ex_sys\<lparr>recalc_pool := [4, 5]\<rparr>))"
proof -
  have n: "dict_stats_timer (dict_stats_shutdown ex_sys) = None"
    by (simp add: dict_stats_shutdown_def)
  have i: "stats_initialised (ex_sys\<lparr>recalc_pool := [4, 5]\<rparr>)"
    by (simp add: ex_sys_def)
  have c: "calls (dict_stats_start (dict_stats_shutdown ex_sys)) = [CreateTimer]"
    by (simp add: dict_stats_start_def dict_stats_shutdown_def ex_sys_def)
  show ?thesis
    using lifecycle_idempotent[of "dict_stats_shutdown ex_sys"]
      lifecycle_idempotent[of "ex_sys\<lparr>recalc_pool := [4, 5]\<rparr>"]
      lifecycle_idempotent[of ex_sys] n i c
    by simp
qed

section \<open>Properties of the worker\<close>

lemmas process_unfold = dict_stats_process_entry_from_recalc_pool.simps

lemma process_empty:
  "recalc_pool w = [] \<Longrightarrow> dict_stats_process_entry_from_recalc_pool w = (False, w)"
  by (simp add: process_unfold[of w] dict_stats_recalc_pool_get_def)

lemma process_missing:
  "recalc_pool w = i # rest \<Longrightarrow> dict_sys_tables w i = None \<Longrightarrow>
   dict_stats_process_entry_from_recalc_pool w =
   dict_stats_process_entry_from_recalc_pool (w\<lparr>recalc_pool := rest\<rparr>)"
  by (simp add: process_unfold[of w] dict_stats_recalc_pool_get_def dict_table_open_on_id_def)

lemma process_inaccessible:
  "recalc_pool w = i # rest \<Longrightarrow> dict_sys_tables w i = Some t \<Longrightarrow> \<not> is_accessible t \<Longrightarrow>
   dict_stats_process_entry_from_recalc_pool w =
   dict_stats_process_entry_from_recalc_pool (w\<lparr>recalc_pool := rest\<rparr>)"
  by (simp add: process_unfold[of w] dict_stats_recalc_pool_get_def dict_table_open_on_id_def
      table_release_def map_upd_triv)

lemma process_throttled:
  "recalc_pool w = i # rest \<Longrightarrow> dict_sys_tables w i = Some t \<Longrightarrow> is_accessible t \<Longrightarrow>
   time_src w (time_calls w) - stats_last_recalc t < MIN_RECALC_INTERVAL \<Longrightarrow>
   dict_stats_process_entry_from_recalc_pool w =
   (False,
    w\<lparr>recalc_pool := (if tab_id t \<in> set rest then rest else rest @ [tab_id t]),
      dict_sys_tables := (dict_sys_tables w)(i \<mapsto> t\<lparr>stats_bg_flag := BG_STAT_NONE\<rparr>),
      time_calls := time_calls w + 1,
      calls := calls w @ [CallSchedule (MIN_RECALC_INTERVAL * 1000)],
      dict_stats_timer :=
        (if dict_stats_mutex_free w
         then map_option (\<lambda>tm. tm\<lparr>timer_due := Some (MIN_RECALC_INTERVAL * 1000)\<rparr>) (dict_stats_timer w)
         else dict_stats_timer w)\<rparr>)"
  by (simp add: process_unfold[of w] dict_stats_recalc_pool_get_def dict_table_open_on_id_def
      table_release_def dict_table_close_def time_null_def dict_stats_recalc_pool_add_def
      dict_stats_schedule_def Let_def split: option.splits)

lemma process_recalc:
  "recalc_pool w = i # rest \<Longrightarrow> dict_sys_tables w i = Some t \<Longrightarrow> is_accessible t \<Longrightarrow>
   \<not> time_src w (time_calls w) - stats_last_recalc t < MIN_RECALC_INTERVAL \<Longrightarrow>
   dict_stats_process_entry_from_recalc_pool w =
   (True,
    w\<lparr>recalc_pool := rest,
      dict_sys_tables := (dict_sys_tables w)(i \<mapsto>
         t\<lparr>stat_modified_counter := 0,
           stats_last_recalc := time_src w (time_calls w + 1),
           stats_bg_flag := BG_STAT_NONE\<rparr>),
      time_calls := time_calls w + 2,
      calls := calls w @ [StatsUpdate DICT_STATS_RECALC_PERSISTENT (tab_id t)]\<rparr>)"
  by (simp add: process_unfold[of w] dict_stats_recalc_pool_get_def dict_table_open_on_id_def
      table_release_def dict_table_close_def time_null_def dict_stats_update_def Let_def)

text \<open>What one pass does to the pool and the trace, by the value it returns.\<close>

lemma process_result:
  "dict_stats_process_entry_from_recalc_pool w = (r, w') \<Longrightarrow>
   (if r then length (recalc_pool w') < length (recalc_pool w)
        \<and> (\<exists>i. calls w' = calls w @ [StatsUpdate DICT_STATS_RECALC_PERSISTENT i])
    else (recalc_pool w' = [] \<and> calls w' = calls w)
       \<or> (recalc_pool w' \<noteq> [] \<and> calls w' = calls w @ [CallSchedule 10000]))"
proof (induction "recalc_pool w" arbitrary: w)
  case Nil
  then show ?case
    using process_empty[of w] by auto
next
  case (Cons x xs)
  let ?v = "w\<lparr>recalc_pool := xs\<rparr>"
  have pool: "recalc_pool w = x # xs"
    using Cons.hyps(2) by simp
  have xs: "xs = recalc_pool ?v"
    by simp
  have skip: ?case if "dict_stats_process_entry_from_recalc_pool w =
      dict_stats_process_entry_from_recalc_pool ?v"
  proof -
    from that Cons.prems have "dict_stats_process_entry_from_recalc_pool ?v = (r, w')"
      by simp
    from Cons.hyps(1)[OF xs this] pool show ?thesis
      by (auto split: if_splits)
  qed
  show ?case
  proof (cases "dict_sys_tables w x")
    case None
    show ?thesis
      by (rule skip) (rule process_missing[OF pool None])
  next
    case (Some t)
    show ?thesis
    proof (cases "is_accessible t")
      case False
      show ?thesis
        by (rule skip) (rule process_inaccessible[OF pool Some False])
    next
      case True
      show ?thesis
      proof (cases "time_src w (time_calls w) - stats_last_recalc t < MIN_RECALC_INTERVAL")
        case thr: True
        from process_throttled[OF pool Some True thr] Cons.prems show ?thesis
          by (auto simp: MIN_RECALC_INTERVAL_def)
      next
        case rec: False
        from process_recalc[OF pool Some True rec] Cons.prems pool show ?thesis
          by auto
      qed
    qed
  qed
qed

lemma loop_unfold:
  "dict_stats_func_loop w =
     (if fst (dict_stats_process_entry_from_recalc_pool w)
      then dict_stats_func_loop (snd (dict_stats_process_entry_from_recalc_pool w))
      else snd (dict_stats_process_entry_from_recalc_pool w))"
  by (subst dict_stats_func_loop.simps) (simp split: prod.splits bool.splits)

lemma loop_end:
  "recalc_pool (dict_stats_func_loop w) = []
   \<or> (\<exists>cs. calls (dict_stats_func_loop w) = cs @ [CallSchedule 10000])"
proof (induction w rule: dict_stats_func_loop.induct)
  case (1 w)
  obtain r w' where p: "dict_stats_process_entry_from_recalc_pool w = (r, w')"
    by (cases "dict_stats_process_entry_from_recalc_pool w")
  show ?case
  proof (cases r)
    case True
    with p "1.IH"[OF p[symmetric]] show ?thesis
      by (simp add: loop_unfold[of w])
  next
    case False
    with p process_result[OF p] show ?thesis
      by (auto simp: loop_unfold[of w])
  qed
qed

text \<open>
  Claim C7 (stale or inaccessible entry).  When the identifier at the head of the pool
  does not resolve to a table, or resolves to a table that is not accessible, a pass
  does exactly what it does on the same state with that identifier removed from the
  pool: the entry leaves nothing behind (no call of \<open>dict_stats_update\<close>, no
  re-enqueue, no change of the catalog, and the function has no error result) and the
  pass goes on with the next entry.
\<close>

theorem stale_entry_discarded:
  assumes "recalc_pool w = i # rest"
    and "\<forall>t. dict_sys_tables w i = Some t \<longrightarrow> \<not> is_accessible t"
  shows "dict_stats_process_entry_from_recalc_pool w =
         dict_stats_process_entry_from_recalc_pool (w\<lparr>recalc_pool := rest\<rparr>)"
proof (cases "dict_sys_tables w i")
  case None
  show ?thesis
    by (rule process_missing[OF assms(1) None])
next
  case (Some t)
  with assms(2) have "\<not> is_accessible t"
    by simp
  then show ?thesis
    by (rule process_inaccessible[OF assms(1) Some])
qed

theorem stale_entry_discarded_witness:
  "dict_stats_process_entry_from_recalc_pool (ex_sys\<lparr>recalc_pool := [9]\<rparr>) = (False, ex_sys)
   \<and> dict_stats_process_entry_from_recalc_pool
        (ex_sys\<lparr>recalc_pool := [1], dict_sys_tables := [1 \<mapsto> ex_table\<lparr>is_accessible := False\<rparr>]\<rparr>)
      = (False, ex_sys\<lparr>dict_sys_tables := [1 \<mapsto> ex_table\<lparr>is_accessible := False\<rparr>]\<rparr>)"
proof -
  let ?w = "ex_sys\<lparr>recalc_pool := [9]\<rparr>"
  let ?v = "ex_sys\<lparr>recalc_pool := [1], dict_sys_tables := [1 \<mapsto> ex_table\<lparr>is_accessible := False\<rparr>]\<rparr>"
  have w: "recalc_pool ?w = 9 # []" "\<forall>t. dict_sys_tables ?w 9 = Some t \<longrightarrow> \<not> is_accessible t"
    by (simp_all add: ex_sys_def)
  have v: "recalc_pool ?v = 1 # []" "\<forall>t. dict_sys_tables ?v 1 = Some t \<longrightarrow> \<not> is_accessible t"
    by (simp_all add: ex_sys_def)
  have e: "?w\<lparr>recalc_pool := []\<rparr> = ex_sys"
      "?v\<lparr>recalc_pool := []\<rparr> = ex_sys\<lparr>dict_sys_tables := [1 \<mapsto> ex_table\<lparr>is_accessible := False\<rparr>]\<rparr>"
    by (simp_all add: ex_sys_def)
  have p: "recalc_pool ex_sys = []"
      "recalc_pool (ex_sys\<lparr>dict_sys_tables := [1 \<mapsto> ex_table\<lparr>is_accessible := False\<rparr>]\<rparr>) = []"
    by (simp_all add: ex_sys_def)
  show ?thesis
    using stale_entry_discarded[OF w] stale_entry_discarded[OF v]
    by (simp only: e process_empty[OF p(1)] process_empty[OF p(2)] simp_thms)
qed

text \<open>
  Claim C6 (throttled entry).  When the identifier \<open>i\<close> at the head of the pool
  resolves to an accessible table (registered under its own id) whose last
  recalculation is less than 10 seconds before the time read by the pass, the pass
  returns false; its only outgoing call is \<open>dict_stats_schedule(10000)\<close>, so there is no
  \<open>dict_stats_update\<close> and no \<open>dict_stats_schedule_now\<close>; \<open>i\<close> is back in the pool, at
  the tail unless a second copy was already queued; and the table stays in the catalog,
  changed only in its background flag, which is cleared.
\<close>

theorem throttled_entry_requeued:
  assumes "recalc_pool w = i # rest"
    and "dict_sys_tables w i = Some t" and "tab_id t = i" and "is_accessible t"
    and "time_src w (time_calls w) - stats_last_recalc t < 10"
  shows "fst (dict_stats_process_entry_from_recalc_pool w) = False
       \<and> calls (snd (dict_stats_process_entry_from_recalc_pool w)) = calls w @ [CallSchedule 10000]
       \<and> recalc_pool (snd (dict_stats_process_entry_from_recalc_pool w)) =
           (if i \<in> set rest then rest else rest @ [i])
       \<and> i \<in> set (recalc_pool (snd (dict_stats_process_entry_from_recalc_pool w)))
       \<and> dict_sys_tables (snd (dict_stats_process_entry_from_recalc_pool w)) =
           (dict_sys_tables w)(i \<mapsto> t\<lparr>stats_bg_flag := BG_STAT_NONE\<rparr>)"
proof -
  have thr: "time_src w (time_calls w) - stats_last_recalc t < MIN_RECALC_INTERVAL"
    using assms(5) by (simp add: MIN_RECALC_INTERVAL_def)
  show ?thesis
    using assms(3) by (simp add: process_throttled[OF assms(1,2,4) thr] MIN_RECALC_INTERVAL_def)
qed

theorem throttled_entry_requeued_witness:
  "fst (dict_stats_process_entry_from_recalc_pool (ex_sys\<lparr>recalc_pool := [1, 2]\<rparr>)) = False
   \<and> calls (snd (dict_stats_process_entry_from_recalc_pool (ex_sys\<lparr>recalc_pool := [1, 2]\<rparr>)))
       = [CallSchedule 10000]
   \<and> recalc_pool (snd (dict_stats_process_entry_from_recalc_pool (ex_sys\<lparr>recalc_pool := [1, 2]\<rparr>)))
       = [2, 1]"
proof -
  let ?w = "ex_sys\<lparr>recalc_pool := [1, 2]\<rparr>"
  have h: "recalc_pool ?w = 1 # [2]" "dict_sys_tables ?w 1 = Some ex_table" "tab_id ex_table = 1"
    "is_accessible ex_table" "time_src ?w (time_calls ?w) - stats_last_recalc ex_table < 10"
    by (simp_all add: ex_sys_def ex_table_def)
  have c: "calls ?w = []"
    by (simp add: ex_sys_def)
  show ?thesis
    using throttled_entry_requeued[OF h] c by simp
qed

text \<open>
  Claim C2, as stated, fails.  With the pool \<open>[1]\<close>, table 1 accessible and recalculated
  5 seconds ago, the first pass returns false and leaves the pool \<open>[1]\<close>; the loop ends
  there, with the state of that pass, and \<open>dict_stats_func\<close> returns with the pool
  non-empty after a single call of \<open>dict_stats_schedule(10000)\<close>.
\<close>

theorem worker_loop_stops_nonempty:
  "fst (dict_stats_process_entry_from_recalc_pool (ex_sys\<lparr>recalc_pool := [1]\<rparr>)) = False
   \<and> recalc_pool (snd (dict_stats_process_entry_from_recalc_pool (ex_sys\<lparr>recalc_pool := [1]\<rparr>))) = [1]
   \<and> dict_stats_func_loop (ex_sys\<lparr>recalc_pool := [1]\<rparr>)
       = snd (dict_stats_process_entry_from_recalc_pool (ex_sys\<lparr>recalc_pool := [1]\<rparr>))
   \<and> recalc_pool (dict_stats_func (ex_sys\<lparr>recalc_pool := [1]\<rparr>)) = [1]
   \<and> calls (dict_stats_func (ex_sys\<lparr>recalc_pool := [1]\<rparr>)) = [CallSchedule 10000]"
proof -
  let ?w = "ex_sys\<lparr>recalc_pool := [1]\<rparr>"
  have h: "recalc_pool ?w = 1 # []" "dict_sys_tables ?w 1 = Some ex_table"
    "is_accessible ex_table"
    "time_src ?w (time_calls ?w) - stats_last_recalc ex_table < MIN_RECALC_INTERVAL"
    by (simp_all add: ex_sys_def ex_table_def MIN_RECALC_INTERVAL_def)
  have t: "tab_id ex_table = 1" and c: "calls ?w = []"
    by (simp_all add: ex_sys_def ex_table_def)
  show ?thesis
    by (simp add: dict_stats_func_def dict_defrag_process_entries_from_defrag_pool_def
        loop_unfold[of ?w] process_throttled[OF h] t c MIN_RECALC_INTERVAL_def)
qed

text \<open>
  Claim C2, amended.  The loop of \<open>dict_stats_func\<close> runs another pass exactly when a
  pass returned true, which is when the pass called \<open>dict_stats_update\<close> on an entry.
  A pass that returned false ends the loop with the state it left: either the pool is
  empty and the pass made no call, or the pass re-enqueued an entry that failed the
  minimum-interval check, the pool is non-empty and its one call is
  \<open>dict_stats_schedule(10000)\<close>.  So the loop always ends with the pool empty or right
  after such a request.
\<close>

theorem worker_loop_passes:
  "(fst (dict_stats_process_entry_from_recalc_pool w) \<longrightarrow>
      dict_stats_func_loop w = dict_stats_func_loop (snd (dict_stats_process_entry_from_recalc_pool w))
      \<and> (\<exists>i. calls (snd (dict_stats_process_entry_from_recalc_pool w))
               = calls w @ [StatsUpdate DICT_STATS_RECALC_PERSISTENT i]))
   \<and> (\<not> fst (dict_stats_process_entry_from_recalc_pool w) \<longrightarrow>
      dict_stats_func_loop w = snd (dict_stats_process_entry_from_recalc_pool w)
      \<and> (recalc_pool (snd (dict_stats_process_entry_from_recalc_pool w)) = []
           \<and> calls (snd (dict_stats_process_entry_from_recalc_pool w)) = calls w
         \<or> recalc_pool (snd (dict_stats_process_entry_from_recalc_pool w)) \<noteq> []
           \<and> calls (snd (dict_stats_process_entry_from_recalc_pool w))
               = calls w @ [CallSchedule 10000]))
   \<and> (recalc_pool (dict_stats_func_loop w) = []
      \<or> (\<exists>cs. calls (dict_stats_func_loop w) = cs @ [CallSchedule 10000]))"
proof -
  obtain r w' where p: "dict_stats_process_entry_from_recalc_pool w = (r, w')"
    by (cases "dict_stats_process_entry_from_recalc_pool w")
  show ?thesis
    using process_result[OF p] loop_end[of w] p
    by (cases r) (simp_all add: loop_unfold[of w])
qed

theorem worker_loop_passes_witness:
  "\<not> fst (dict_stats_process_entry_from_recalc_pool (ex_sys\<lparr>recalc_pool := [1]\<rparr>))
   \<and> dict_stats_func_loop (ex_sys\<lparr>recalc_pool := [1]\<rparr>)
       = snd (dict_stats_process_entry_from_recalc_pool (ex_sys\<lparr>recalc_pool := [1]\<rparr>))
   \<and> fst (dict_stats_process_entry_from_recalc_pool
            (ex_sys\<lparr>recalc_pool := [1, 1], time_src := (\<lambda>n. 200)\<rparr>))
   \<and> dict_stats_func_loop (ex_sys\<lparr>recalc_pool := [1, 1], time_src := (\<lambda>n. 200)\<rparr>)
       = dict_stats_func_loop (snd (dict_stats_process_entry_from_recalc_pool
            (ex_sys\<lparr>recalc_pool := [1, 1], time_src := (\<lambda>n. 200)\<rparr>)))"
proof -
  let ?a = "ex_sys\<lparr>recalc_pool := [1]\<rparr>"
  let ?b = "ex_sys\<lparr>recalc_pool := [1, 1], time_src := (\<lambda>n. 200)\<rparr>"
  have a: "recalc_pool ?a = 1 # []" "dict_sys_tables ?a 1 = Some ex_table"
    "is_accessible ex_table"
    "time_src ?a (time_calls ?a) - stats_last_recalc ex_table < MIN_RECALC_INTERVAL"
    by (simp_all add: ex_sys_def ex_table_def MIN_RECALC_INTERVAL_def)
  have b: "recalc_pool ?b = 1 # [1]" "dict_sys_tables ?b 1 = Some ex_table"
    "is_accessible ex_table"
    "\<not> time_src ?b (time_calls ?b) - stats_last_recalc ex_table < MIN_RECALC_INTERVAL"
    by (simp_all add: ex_sys_def ex_table_def MIN_RECALC_INTERVAL_def)
  have fa: "\<not> fst (dict_stats_process_entry_from_recalc_pool ?a)"
    by (simp add: process_throttled[OF a])
  have fb: "fst (dict_stats_process_entry_from_recalc_pool ?b)"
    by (simp add: process_recalc[OF b])
  show ?thesis
    using worker_loop_passes[of ?a] worker_loop_passes[of ?b] fa fb
    by simp
qed

section \<open>Properties of the modification tracker\<close>

lemma unat_transient_threshold:
  "unat (transient_threshold n ov) =
     (if ov = 0 then 16 + unat n div 16 else min (unat ov) (16 + unat n div 16))"
proof -
  have "unat n < 2 ^ 64"
    using unsigned_less[of n, where 'a = nat] by simp
  then have "16 + unat n div 16 < 2 ^ 64"
    by simp
  then have "unat (16 + n div 16) = 16 + unat n div 16"
    by (simp add: unat_add_lem[THEN iffD1] unat_div)
  then show ?thesis
    by (simp add: transient_threshold_def Let_def min_def word_le_nat_alt)
qed

text \<open>
  Claim C1, as stated, fails.  For a table with 160 rows and no global override the
  threshold is 26, not 16, and a call that reads the counter 17 in transient mode makes
  no call of \<open>dict_stats_update\<close>: it only increments the counter to 18.
\<close>

theorem transient_threshold_claimed_value_fails:
  "transient_threshold 160 0 = 26 \<and> transient_threshold 160 0 \<noteq> 16
   \<and> stat_initialized ex_table \<and> \<not> stats_persistent_enabled ex_table
   \<and> stat_n_rows ex_table = 160 \<and> stat_modified_counter ex_table = 17
   \<and> srv_stats_modified_counter ex_sys = 0
   \<and> calls (snd (dict_stats_update_if_needed_func False ex_table ex_sys)) = []
   \<and> stat_modified_counter (fst (dict_stats_update_if_needed_func False ex_table ex_sys)) = 18"
  by (simp add: transient_threshold_def dict_stats_update_if_needed_func_def
      dict_table_get_n_rows_def ex_table_def ex_sys_def Let_def)

text \<open>
  Claim C1, amended.  In transient mode the threshold is \<open>16 + row_count / 16\<close>, replaced
  by \<open>min(override, threshold)\<close> when the global override is not zero (the sum cannot
  wrap in 64 bits); a table with initialised statistics is recomputed synchronously
  exactly when the counter read by the call exceeds the threshold.  With no override and
  160 rows the threshold is 26: a counter of 27 triggers the transient recompute, a
  counter of 26 does not.
\<close>

theorem transient_mode_threshold:
  "unat (transient_threshold n ov) =
     (if ov = 0 then 16 + unat n div 16 else min (unat ov) (16 + unat n div 16))
   \<and> (stat_initialized t \<and> \<not> stats_persistent_enabled t \<longrightarrow>
        dict_stats_update_if_needed_func wsrep_skip t w =
          (if stat_modified_counter t
                > transient_threshold (stat_n_rows t) (srv_stats_modified_counter w)
           then dict_stats_update (t\<lparr>stat_modified_counter := stat_modified_counter t + 1\<rparr>)
                  DICT_STATS_RECALC_TRANSIENT w
           else (t\<lparr>stat_modified_counter := stat_modified_counter t + 1\<rparr>, w)))
   \<and> transient_threshold 160 0 = 26
   \<and> (stat_initialized t \<and> \<not> stats_persistent_enabled t \<and> stat_n_rows t = 160
        \<and> srv_stats_modified_counter w = 0 \<longrightarrow>
        calls (snd (dict_stats_update_if_needed_func wsrep_skip t w)) =
          (if stat_modified_counter t > 26
           then calls w @ [StatsUpdate DICT_STATS_RECALC_TRANSIENT (tab_id t)]
           else calls w))"
proof -
  have th: "transient_threshold 160 0 = 26"
    by (simp add: transient_threshold_def)
  show ?thesis
    by (simp add: unat_transient_threshold dict_stats_update_if_needed_func_def
        dict_table_get_n_rows_def Let_def th dict_stats_update_def time_null_def)
qed

theorem transient_mode_threshold_witness:
  "stat_modified_counter
     (fst (dict_stats_update_if_needed_func False (ex_table\<lparr>stat_modified_counter := 26\<rparr>) ex_sys)) = 27
   \<and> calls (snd (dict_stats_update_if_needed_func False (ex_table\<lparr>stat_modified_counter := 26\<rparr>) ex_sys)) = []
   \<and> stat_modified_counter
     (fst (dict_stats_update_if_needed_func False (ex_table\<lparr>stat_modified_counter := 27\<rparr>) ex_sys)) = 0
   \<and> calls (snd (dict_stats_update_if_needed_func False (ex_table\<lparr>stat_modified_counter := 27\<rparr>) ex_sys))
       = [StatsUpdate DICT_STATS_RECALC_TRANSIENT 1]"
proof -
  let ?a = "ex_table\<lparr>stat_modified_counter := 26\<rparr>"
  let ?b = "ex_table\<lparr>stat_modified_counter := 27\<rparr>"
  have h: "stat_initialized ?a \<and> \<not> stats_persistent_enabled ?a"
    "stat_initialized ?b \<and> \<not> stats_persistent_enabled ?b"
    by (simp_all add: ex_table_def)
  have v: "stat_n_rows ?a = 160" "stat_n_rows ?b = 160" "srv_stats_modified_counter ex_sys = 0"
    "stat_modified_counter ?a = 26" "stat_modified_counter ?b = 27" "tab_id ex_table = 1"
    "calls ex_sys = []"
    by (simp_all add: ex_table_def ex_sys_def)
  have th: "transient_threshold 160 0 = 26"
    using transient_mode_threshold[of 0 0 ex_table False ex_sys] by simp
  show ?thesis
    using transient_mode_threshold[of 0 0 ?a False ex_sys]
      transient_mode_threshold[of 0 0 ?b False ex_sys] h
    by (simp add: v th dict_stats_update_def time_null_def)
qed

text \<open>
  Claim C8 (persistent mode), read as the spec states it, for a table with initialised
  statistics.  In persistent mode a temporary table is never enqueued.  A table that is
  not temporary is passed to \<open>dict_stats_recalc_pool_add\<close> with immediate scheduling
  allowed, and its counter set to zero, exactly when the counter read by the call
  exceeds \<open>row_count / 10\<close>, auto-recalculation is enabled and the replication check
  does not veto; in every other case the state is unchanged and the counter is the
  incremented one.
\<close>

theorem persistent_mode_enqueue:
  assumes "stat_initialized t" and "stats_persistent_enabled t"
  shows "dict_stats_update_if_needed_func wsrep_skip t w =
     (if \<not> name_is_temporary t
         \<and> stat_modified_counter t > stat_n_rows t div 10
         \<and> stats_auto_recalc_enabled t \<and> \<not> wsrep_skip
      then (t\<lparr>stat_modified_counter := 0\<rparr>, dict_stats_recalc_pool_add (tab_id t) True w)
      else (t\<lparr>stat_modified_counter := stat_modified_counter t + 1\<rparr>, w))"
  using assms
  by (simp add: dict_stats_update_if_needed_func_def dict_table_get_n_rows_def Let_def)

theorem persistent_mode_enqueue_witness:
  "recalc_pool (snd (dict_stats_update_if_needed_func False
       (ex_table\<lparr>stats_persistent_enabled := True\<rparr>) ex_sys)) = [1]
   \<and> calls (snd (dict_stats_update_if_needed_func False
       (ex_table\<lparr>stats_persistent_enabled := True\<rparr>) ex_sys)) = [CallSchedule 0]
   \<and> stat_modified_counter (fst (dict_stats_update_if_needed_func False
       (ex_table\<lparr>stats_persistent_enabled := True\<rparr>) ex_sys)) = 0
   \<and> snd (dict_stats_update_if_needed_func False
       (ex_table\<lparr>stat_modified_counter := 16, stats_persistent_enabled := True\<rparr>) ex_sys) = ex_sys
   \<and> snd (dict_stats_update_if_needed_func False
       (ex_table\<lparr>name_is_temporary := True, stats_persistent_enabled := True\<rparr>) ex_sys) = ex_sys"
proof -
  let ?a = "ex_table\<lparr>stats_persistent_enabled := True\<rparr>"
  let ?b = "ex_table\<lparr>stat_modified_counter := 16, stats_persistent_enabled := True\<rparr>"
  let ?c = "ex_table\<lparr>name_is_temporary := True, stats_persistent_enabled := True\<rparr>"
  have a: "stat_initialized ?a" "stats_persistent_enabled ?a"
    and b: "stat_initialized ?b" "stats_persistent_enabled ?b"
    and c: "stat_initialized ?c" "stats_persistent_enabled ?c"
    by (simp_all add: ex_table_def)
  have v: "\<not> name_is_temporary ?a" "stat_modified_counter ?a = 17" "stat_n_rows ?a = 160"
    "stats_auto_recalc_enabled ?a" "tab_id ?a = 1"
    "stat_modified_counter ?b = 16" "stat_n_rows ?b = 160" "name_is_temporary ?c"
    by (simp_all add: ex_table_def)
  have p: "recalc_pool (dict_stats_recalc_pool_add 1 True ex_sys) = [1]"
    "calls (dict_stats_recalc_pool_add 1 True ex_sys) = [CallSchedule 0]"
    by (simp_all add: dict_stats_recalc_pool_add_def dict_stats_schedule_now_def
        dict_stats_schedule_def ex_sys_def)
  show ?thesis
    using persistent_mode_enqueue[OF a, of False ex_sys]
      persistent_mode_enqueue[OF b, of False ex_sys]
      persistent_mode_enqueue[OF c, of False ex_sys]
    by (simp add: v p)
qed

end
